theory Spec2Isabelle
  imports Complex_Main
begin

section \<open>Numbers\<close>

text \<open>
  The scoring module computes with JavaScript numbers. A finite number is modelled as a
  \<^typ>\<open>real\<close>: arithmetic is exact, the rounding of IEEE doubles is not modelled. The only
  operation of the module that leaves the finite numbers is division by zero, which in
  JavaScript raises nothing and yields \<open>NaN\<close> (for \<open>0 / 0\<close>) or \<open>\<plusminus>Infinity\<close>. A value that
  may be non-finite is a \<^typ>\<open>real option\<close>, with \<open>None\<close> standing for \<open>NaN\<close> and
  \<open>\<plusminus>Infinity\<close>. Every operation the module applies to such a value afterwards (a product
  with a non-zero finite number, a sum, a quotient, \<open>Math.round\<close>) keeps it non-finite, so
  \<open>None\<close> propagates.
\<close>

definition jsdiv :: "real \<Rightarrow> real \<Rightarrow> real option" where
  "jsdiv a b = (if b = 0 then None else Some (a / b))"

text \<open>\<open>Math.round\<close>: the nearest integer, a tie going up.\<close>

definition Math_round :: "real \<Rightarrow> real" where
  "Math_round x = of_int \<lfloor>x + 1 / 2\<rfloor>"

section \<open>Data model (\<open>types/index.ts\<close>)\<close>

text \<open>
  Fields that no modelled function reads (identifiers, coordinates, postal address, the
  derived neighbourhood scores, the time stamp, tags) are left out of the records. Field
  names that occur in two interfaces carry a suffix in one of them.
\<close>

record Location =
  city :: "string option"

record AgeGroups =
  under18 :: real
  age18to34 :: real
  age35to49 :: real
  age50to64 :: real
  over65 :: real

record Demographics =
  totalPopulation :: real
  medianIncome :: real
  familyFriendly :: bool
  ageGroups :: AgeGroups

record Amenities =
  restaurants :: real
  cafes :: real
  bars :: real
  groceryStores :: real
  parks :: real
  gyms :: real
  schools :: real
  hospitals :: real
  shoppingCenters :: real
  entertainment :: real

record SafetyMetrics =
  crimeRate :: real
  safetyScore :: real

record TransportationInfo =
  walkabilityScore :: real
  transitScore :: real
  bikeScore :: real

record LifestyleMetrics =
  nightlife :: real
  familyActivities :: real
  outdoorActivities :: real
  culturalEvents :: real
  communityEngagement :: real

record Neighborhood =
  name :: string
  location :: Location
  demographics :: Demographics
  amenities :: Amenities
  safety :: SafetyMetrics
  transportation :: TransportationInfo
  lifestyle :: LifestyleMetrics

record Budget =
  budget_min :: real
  budget_max :: real

text \<open>
  A priority is a number of the request body; the aggregation treats a missing one with
  \<open>weights[category] || 5\<close>, so a field may be absent (\<open>None\<close>).
\<close>

record Priorities =
  safety_priority :: "real option"
  amenities_priority :: "real option"
  transportation_priority :: "real option"
  lifestyle_priority :: "real option"
  affordability_priority :: "real option"
  familyFriendly_priority :: "real option"
  nightlife_priority :: "real option"
  quietness_priority :: "real option"

text \<open>
  The enumerations of the lifestyle profile are strings at run time: the calculators take
  a \<open>string\<close> and have a \<open>default\<close> branch.
\<close>

record UserLifestyle =
  ageGroup :: string
  activityLevel :: string
  socialPreference :: string
  workStyle :: string

record UserPreferences =
  budget :: Budget
  priorities :: Priorities
  userLifestyle :: UserLifestyle

record MatchingResult =
  neighborhood :: Neighborhood
  compatibilityScore :: "real option"
  matchReasons :: "string list"
  potentialConcerns :: "string list"
  recommendations :: "string list"

section \<open>Sub-score calculators (\<open>MatchingAlgorithm\<close>)\<close>

definition MAX_SCORE :: real where
  "MAX_SCORE = 100"

text \<open>\<open>Object.values\<close> of an amenities object, in declaration order.\<close>

definition amenityValues :: "Amenities \<Rightarrow> real list" where
  "amenityValues a =
     [restaurants a, cafes a, bars a, groceryStores a, parks a, gyms a, schools a,
      hospitals a, shoppingCenters a, entertainment a]"

definition totalAmenities :: "Amenities \<Rightarrow> real" where
  "totalAmenities a = foldl (\<lambda>sum count. sum + count) 0 (amenityValues a)"

definition calculateSafetyScore :: "UserPreferences \<Rightarrow> Neighborhood \<Rightarrow> real" where
  "calculateSafetyScore preferences nb =
     (let crimeBonus = max 0 ((50 - crimeRate (safety nb)) / 50) * 10
      in min MAX_SCORE (safetyScore (safety nb) + crimeBonus))"

definition calculateAmenitiesScore :: "UserPreferences \<Rightarrow> Neighborhood \<Rightarrow> real" where
  "calculateAmenitiesScore preferences nb =
     min 100 ((totalAmenities (amenities nb) / 50) * 100)"

definition calculateTransportationScore :: "UserPreferences \<Rightarrow> Neighborhood \<Rightarrow> real" where
  "calculateTransportationScore preferences nb =
     Math_round
       (walkabilityScore (transportation nb) * (4 / 10) +
        transitScore (transportation nb) * (3 / 10) +
        bikeScore (transportation nb) * (3 / 10))"

definition calculateAgeGroupCompatibility :: "string \<Rightarrow> Demographics \<Rightarrow> real option" where
  "calculateAgeGroupCompatibility userAgeGroup d =
     (if userAgeGroup = ''young'' then
        map_option (\<lambda>q. q * 100) (jsdiv (age18to34 (ageGroups d)) (totalPopulation d))
      else if userAgeGroup = ''family'' then
        map_option (\<lambda>q. q * 100)
          (jsdiv (age35to49 (ageGroups d) + under18 (ageGroups d)) (totalPopulation d))
      else if userAgeGroup = ''senior'' then
        map_option (\<lambda>q. q * 100) (jsdiv (over65 (ageGroups d)) (totalPopulation d))
      else if userAgeGroup = ''mixed'' then Some 75
      else Some 50)"

definition calculateActivityCompatibility :: "string \<Rightarrow> LifestyleMetrics \<Rightarrow> real" where
  "calculateActivityCompatibility userActivityLevel l =
     (let outdoorScore = outdoorActivities l; culturalScore = culturalEvents l
      in if userActivityLevel = ''high'' then Math_round ((outdoorScore + culturalScore) / 2)
         else if userActivityLevel = ''medium'' then
           Math_round ((outdoorScore + culturalScore + 50) / 3)
         else if userActivityLevel = ''low'' then
           Math_round ((100 - outdoorScore + 100 - culturalScore) / 2)
         else 50)"

definition calculateSocialCompatibility :: "string \<Rightarrow> LifestyleMetrics \<Rightarrow> real" where
  "calculateSocialCompatibility socialPref l =
     (let communityScore = communityEngagement l; nightlifeScore = nightlife l
      in if socialPref = ''extrovert'' then Math_round ((communityScore + nightlifeScore) / 2)
         else if socialPref = ''introvert'' then
           Math_round ((100 - communityScore + 100 - nightlifeScore) / 2)
         else if socialPref = ''balanced'' then
           Math_round ((communityScore + (100 - nightlifeScore)) / 2)
         else 50)"

definition calculateLifestyleScore :: "UserPreferences \<Rightarrow> Neighborhood \<Rightarrow> real option" where
  "calculateLifestyleScore preferences nb =
     (let activityScore =
            calculateActivityCompatibility (activityLevel (userLifestyle preferences))
              (lifestyle nb);
          socialScore =
            calculateSocialCompatibility (socialPreference (userLifestyle preferences))
              (lifestyle nb)
      in map_option
           (\<lambda>ageGroupScore.
              Math_round
                (0 + ageGroupScore * (3 / 10) + activityScore * (3 / 10) +
                 socialScore * (4 / 10)))
           (calculateAgeGroupCompatibility (ageGroup (userLifestyle preferences))
              (demographics nb)))"

definition calculateAffordabilityScore :: "UserPreferences \<Rightarrow> Neighborhood \<Rightarrow> real" where
  "calculateAffordabilityScore preferences nb =
     (let estimatedHousingCost = medianIncome (demographics nb) * (3 / 10)
      in if estimatedHousingCost \<le> budget_max (budget preferences) \<and>
            estimatedHousingCost \<ge> budget_min (budget preferences) then 100
         else if estimatedHousingCost \<le> budget_max (budget preferences) * (12 / 10) then 80
         else if estimatedHousingCost \<le> budget_max (budget preferences) * (15 / 10) then 50
         else 20)"

definition calculateFamilyFriendlyScore :: "UserPreferences \<Rightarrow> Neighborhood \<Rightarrow> real option" where
  "calculateFamilyFriendlyScore preferences nb =
     (let score0 = 0 + min 25 (schools (amenities nb) * 5);
          score1 =
            score0 + min 25 ((parks (amenities nb) + familyActivities (lifestyle nb)) * 2)
      in map_option (\<lambda>familyPercentage. Math_round (score1 + familyPercentage * 50))
           (jsdiv
              (under18 (ageGroups (demographics nb)) + age35to49 (ageGroups (demographics nb)))
              (totalPopulation (demographics nb))))"

definition calculateNightlifeScore :: "UserPreferences \<Rightarrow> Neighborhood \<Rightarrow> real" where
  "calculateNightlifeScore preferences nb =
     Math_round
       (0 + min 40 ((bars (amenities nb) + restaurants (amenities nb)) * 2) +
        nightlife (lifestyle nb) * (6 / 10))"

definition calculateQuietnessScore :: "UserPreferences \<Rightarrow> Neighborhood \<Rightarrow> real" where
  "calculateQuietnessScore preferences nb =
     (let noiseFactors = (nightlife (lifestyle nb) + entertainment (amenities nb)) / 2;
          quietnessScore = max 0 (100 - noiseFactors)
      in Math_round quietnessScore)"

section \<open>Weighted aggregation\<close>

text \<open>The entries of the \<open>scores\<close> object of \<open>calculateCompatibility\<close>, in its order.\<close>

definition scoreEntries :: "UserPreferences \<Rightarrow> Neighborhood \<Rightarrow> (string \<times> real option) list" where
  "scoreEntries preferences nb =
     [(''safety'', Some (calculateSafetyScore preferences nb)),
      (''amenities'', Some (calculateAmenitiesScore preferences nb)),
      (''transportation'', Some (calculateTransportationScore preferences nb)),
      (''lifestyle'', calculateLifestyleScore preferences nb),
      (''affordability'', Some (calculateAffordabilityScore preferences nb)),
      (''familyFriendly'', calculateFamilyFriendlyScore preferences nb),
      (''nightlife'', Some (calculateNightlifeScore preferences nb)),
      (''quietness'', Some (calculateQuietnessScore preferences nb))]"

text \<open>\<open>Object.values(weights)\<close>: the priorities that are present, in declaration order.\<close>

definition priorityValues :: "Priorities \<Rightarrow> real list" where
  "priorityValues w =
     List.map_filter (\<lambda>v. v)
       [safety_priority w, amenities_priority w, transportation_priority w,
        lifestyle_priority w, affordability_priority w, familyFriendly_priority w,
        nightlife_priority w, quietness_priority w]"

text \<open>\<open>weights[category]\<close>: \<open>None\<close> is JavaScript's \<open>undefined\<close>.\<close>

definition weightOf :: "Priorities \<Rightarrow> string \<Rightarrow> real option" where
  "weightOf w category =
     (if category = ''safety'' then safety_priority w
      else if category = ''amenities'' then amenities_priority w
      else if category = ''transportation'' then transportation_priority w
      else if category = ''lifestyle'' then lifestyle_priority w
      else if category = ''affordability'' then affordability_priority w
      else if category = ''familyFriendly'' then familyFriendly_priority w
      else if category = ''nightlife'' then nightlife_priority w
      else if category = ''quietness'' then quietness_priority w
      else None)"

text \<open>\<open>x || d\<close> on a number that may be missing: \<open>undefined\<close> and \<open>0\<close> are falsy.\<close>

definition orDefault :: "real option \<Rightarrow> real \<Rightarrow> real" where
  "orDefault x d = (case x of None \<Rightarrow> d | Some v \<Rightarrow> if v = 0 then d else v)"

text \<open>
  One turn of the loop over \<open>Object.entries(scores)\<close>. The quotient and the sum are
  exact here, where the code adds up quotients rounded to IEEE doubles: when the exact
  weighted mean lies on a tie of \<open>Math.round\<close> (a value ending in .5) and the weights are
  not all equal, the code's sum can fall just below the tie and round down. What is stated
  below of the overall score is to be read in exact arithmetic; nothing is stated that
  rests on such a tie.
\<close>

definition addWeighted ::
  "Priorities \<Rightarrow> real \<Rightarrow> real option \<Rightarrow> string \<times> real option \<Rightarrow> real option" where
  "addWeighted weights totalWeight weightedScore entry =
     (let weight = orDefault (weightOf weights (fst entry)) 5
      in case weightedScore of
           None \<Rightarrow> None
         | Some acc \<Rightarrow>
             (case snd entry of
                None \<Rightarrow> None
              | Some score \<Rightarrow> map_option (\<lambda>q. acc + q) (jsdiv (score * weight) totalWeight)))"

text \<open>
  The second half of \<open>calculateCompatibility\<close> (the total weight, the loop and the final
  rounding), as a function of the weights and the score entries.
\<close>

definition totalWeightOf :: "Priorities \<Rightarrow> real" where
  "totalWeightOf weights = foldl (\<lambda>sum weight. sum + weight) 0 (priorityValues weights)"

definition weightedAggregate :: "Priorities \<Rightarrow> (string \<times> real option) list \<Rightarrow> real option" where
  "weightedAggregate weights scores =
     (let totalWeight = totalWeightOf weights;
          weightedScore = foldl (addWeighted weights totalWeight) (Some 0) scores
      in map_option Math_round weightedScore)"

definition calculateCompatibility :: "UserPreferences \<Rightarrow> Neighborhood \<Rightarrow> real option" where
  "calculateCompatibility preferences nb =
     (let scores = scoreEntries preferences nb;
          weights = priorities preferences
      in weightedAggregate weights scores)"

section \<open>Explanation generator\<close>

text \<open>\<open>if (c) list.push(s)\<close>.\<close>

definition pushIf :: "bool \<Rightarrow> string \<Rightarrow> string list \<Rightarrow> string list" where
  "pushIf c s xs = (if c then xs @ [s] else xs)"

definition generateMatchReasons :: "UserPreferences \<Rightarrow> Neighborhood \<Rightarrow> string list" where
  "generateMatchReasons preferences nb =
     (let reasons0 = [];
          reasons1 = pushIf (safetyScore (safety nb) > 80) ''Excellent safety ratings'' reasons0;
          reasons2 =
            pushIf (totalAmenities (amenities nb) > 30) ''Abundant local amenities'' reasons1;
          reasons3 =
            pushIf (walkabilityScore (transportation nb) > 70) ''Highly walkable neighborhood''
              reasons2;
          reasons4 =
            pushIf
              (ageGroup (userLifestyle preferences) = ''family'' \<and>
               familyFriendly (demographics nb))
              ''Family-friendly community'' reasons3
      in reasons4)"

definition generatePotentialConcerns :: "UserPreferences \<Rightarrow> Neighborhood \<Rightarrow> string list" where
  "generatePotentialConcerns preferences nb =
     (let concerns0 = [];
          concerns1 =
            pushIf (crimeRate (safety nb) > 30) ''Higher than average crime rate'' concerns0;
          estimatedCost = medianIncome (demographics nb) * (3 / 10);
          concerns2 =
            pushIf (estimatedCost > budget_max (budget preferences))
              ''May exceed your budget range'' concerns1;
          concerns3 =
            pushIf (walkabilityScore (transportation nb) < 30) ''Limited walkability'' concerns2
      in concerns3)"

definition generateRecommendations :: "UserPreferences \<Rightarrow> Neighborhood \<Rightarrow> string list" where
  "generateRecommendations preferences nb =
     (let recommendations0 = [];
          recommendations1 =
            pushIf (walkabilityScore (transportation nb) < 50)
              ''Consider getting a car or using ride-sharing services'' recommendations0;
          recommendations2 =
            pushIf (safetyScore (safety nb) < 70)
              ''Research specific safety measures and local crime patterns'' recommendations1;
          recommendations3 =
            pushIf
              (activityLevel (userLifestyle preferences) = ''high'' \<and>
               outdoorActivities (lifestyle nb) < 50)
              ''Look for nearby parks and recreational facilities'' recommendations2
      in recommendations3)"

definition generateMatchingResult :: "UserPreferences \<Rightarrow> Neighborhood \<Rightarrow> MatchingResult" where
  "generateMatchingResult preferences nb =
     \<lparr>neighborhood = nb,
      compatibilityScore = calculateCompatibility preferences nb,
      matchReasons = generateMatchReasons preferences nb,
      potentialConcerns = generatePotentialConcerns preferences nb,
      recommendations = generateRecommendations preferences nb\<rparr>"

section \<open>The matching route (\<open>POST /api/matching\<close>)\<close>

text \<open>
  The request body may lack either member. The answer is the error of the 400 reply or the
  data of the success reply; the time stamp of the envelope is left out.
\<close>

record MatchingBody =
  body_preferences :: "UserPreferences option"
  body_neighborhoods :: "Neighborhood list option"

datatype error = BadRequest string

definition matchingRoutes_post :: "MatchingBody \<Rightarrow> error + MatchingResult list" where
  "matchingRoutes_post body =
     (case body_preferences body of
        None \<Rightarrow> Inl (BadRequest ''Missing preferences or neighborhoods'')
      | Some preferences \<Rightarrow>
          (case body_neighborhoods body of
             None \<Rightarrow> Inl (BadRequest ''Missing preferences or neighborhoods'')
           | Some neighborhoods \<Rightarrow>
               Inr (map (\<lambda>n. generateMatchingResult preferences n) neighborhoods)))"

section \<open>The neighbourhood filter of the client (\<open>NeighborhoodsPage.tsx\<close>)\<close>

text \<open>
  \<open>String.prototype.toLowerCase\<close> is a built-in of the language whose table of letters
  is not part of the repository: the filter takes it as the parameter \<open>toLowerCase\<close>,
  and what is proved of the filter holds for every such function. On a string of ASCII
  characters the built-in changes the letters A to Z only; \<open>asciiLowerCase\<close> is that
  restriction, used for the ASCII examples. \<open>includes\<close> is the test for a contiguous
  substring.
\<close>

definition lowerChar :: "char \<Rightarrow> char" where
  "lowerChar c =
     (let k = (of_char c :: nat) in if 65 \<le> k \<and> k \<le> 90 then char_of (k + 32) else c)"

definition asciiLowerCase :: "string \<Rightarrow> string" where
  "asciiLowerCase s = map lowerChar s"

fun startsWith :: "string \<Rightarrow> string \<Rightarrow> bool" where
  "startsWith s [] = True"
| "startsWith [] (c # cs) = False"
| "startsWith (x # xs) (c # cs) = (x = c \<and> startsWith xs cs)"

fun includes_str :: "string \<Rightarrow> string \<Rightarrow> bool" where
  "includes_str [] t = (t = [])"
| "includes_str (x # xs) t = (startsWith (x # xs) t \<or> includes_str xs t)"

record SelectedFilters =
  filter_safetyScore :: real
  filter_walkabilityScore :: real
  maxCrimeRate :: real
  minAmenities :: real

text \<open>The first four tests of the filter callback; a missing city makes its test falsy.\<close>

definition matchesSearch :: "(string \<Rightarrow> string) \<Rightarrow> string \<Rightarrow> Neighborhood \<Rightarrow> bool" where
  "matchesSearch toLowerCase searchTerm nb =
     (includes_str (toLowerCase (name nb)) (toLowerCase searchTerm) \<or>
      (case city (location nb) of
         None \<Rightarrow> False
       | Some c \<Rightarrow> includes_str (toLowerCase c) (toLowerCase searchTerm)))"

definition matchesSafety :: "SelectedFilters \<Rightarrow> Neighborhood \<Rightarrow> bool" where
  "matchesSafety selectedFilters nb =
     (safetyScore (safety nb) \<ge> filter_safetyScore selectedFilters)"

definition matchesWalkability :: "SelectedFilters \<Rightarrow> Neighborhood \<Rightarrow> bool" where
  "matchesWalkability selectedFilters nb =
     (walkabilityScore (transportation nb) \<ge> filter_walkabilityScore selectedFilters)"

definition matchesCrimeRate :: "SelectedFilters \<Rightarrow> Neighborhood \<Rightarrow> bool" where
  "matchesCrimeRate selectedFilters nb =
     (crimeRate (safety nb) \<le> maxCrimeRate selectedFilters)"

definition matchesAmenities :: "SelectedFilters \<Rightarrow> Neighborhood \<Rightarrow> bool" where
  "matchesAmenities selectedFilters nb =
     (totalAmenities (amenities nb) \<ge> minAmenities selectedFilters)"

definition filteredNeighborhoods ::
  "(string \<Rightarrow> string) \<Rightarrow> Neighborhood list \<Rightarrow> string \<Rightarrow> SelectedFilters \<Rightarrow>
     Neighborhood list" where
  "filteredNeighborhoods toLowerCase neighborhoods searchTerm selectedFilters =
     filter
       (\<lambda>nb. matchesSearch toLowerCase searchTerm nb \<and> matchesSafety selectedFilters nb \<and>
          matchesWalkability selectedFilters nb \<and> matchesCrimeRate selectedFilters nb \<and>
          matchesAmenities selectedFilters nb)
       neighborhoods"

section \<open>Reference formulas and input ranges of the specification\<close>

text \<open>
  The aggregate as the specification words it: every weight is the priority, or 5 where
  the priority is absent or falsy; the total weight is the sum of these eight weights; the
  result is the rounded quotient of the weighted sum by the total weight.
\<close>

definition spec_compatibility :: "UserPreferences \<Rightarrow> Neighborhood \<Rightarrow> real option" where
  "spec_compatibility preferences nb =
     (let w = priorities preferences;
          w1 = orDefault (safety_priority w) 5;
          w2 = orDefault (amenities_priority w) 5;
          w3 = orDefault (transportation_priority w) 5;
          w4 = orDefault (lifestyle_priority w) 5;
          w5 = orDefault (affordability_priority w) 5;
          w6 = orDefault (familyFriendly_priority w) 5;
          w7 = orDefault (nightlife_priority w) 5;
          w8 = orDefault (quietness_priority w) 5;
          totalWeight = w1 + w2 + w3 + w4 + w5 + w6 + w7 + w8
      in case calculateLifestyleScore preferences nb of
           None \<Rightarrow> None
         | Some s4 \<Rightarrow>
             (case calculateFamilyFriendlyScore preferences nb of
                None \<Rightarrow> None
              | Some s6 \<Rightarrow>
                  map_option Math_round
                    (jsdiv
                       (calculateSafetyScore preferences nb * w1 +
                        calculateAmenitiesScore preferences nb * w2 +
                        calculateTransportationScore preferences nb * w3 +
                        s4 * w4 +
                        calculateAffordabilityScore preferences nb * w5 +
                        s6 * w6 +
                        calculateNightlifeScore preferences nb * w7 +
                        calculateQuietnessScore preferences nb * w8)
                       totalWeight)))"

text \<open>The unweighted mean of eight sub-scores, non-finite as soon as one of them is.\<close>

definition unweightedMean :: "(string \<times> real option) list \<Rightarrow> real option" where
  "unweightedMean scores =
     (case those (map snd scores) of
        None \<Rightarrow> None
      | Some ss \<Rightarrow> Some (sum_list ss / 8))"

text \<open>The nominal ranges of the data model.\<close>

definition percentage :: "real \<Rightarrow> bool" where
  "percentage x = (0 \<le> x \<and> x \<le> 100)"

definition validAgeGroups :: "Demographics \<Rightarrow> bool" where
  "validAgeGroups d =
     (0 \<le> under18 (ageGroups d) \<and> 0 \<le> age18to34 (ageGroups d) \<and>
      0 \<le> age35to49 (ageGroups d) \<and> 0 \<le> age50to64 (ageGroups d) \<and>
      0 \<le> over65 (ageGroups d) \<and>
      under18 (ageGroups d) + age18to34 (ageGroups d) + age35to49 (ageGroups d) +
        age50to64 (ageGroups d) + over65 (ageGroups d) \<le> totalPopulation d)"

definition validAmenities :: "Amenities \<Rightarrow> bool" where
  "validAmenities a = list_all (\<lambda>count. 0 \<le> count) (amenityValues a)"

definition validNeighborhood :: "Neighborhood \<Rightarrow> bool" where
  "validNeighborhood nb =
     (0 \<le> totalPopulation (demographics nb) \<and> validAgeGroups (demographics nb) \<and>
      validAmenities (amenities nb) \<and>
      0 \<le> crimeRate (safety nb) \<and> percentage (safetyScore (safety nb)) \<and>
      percentage (walkabilityScore (transportation nb)) \<and>
      percentage (transitScore (transportation nb)) \<and>
      percentage (bikeScore (transportation nb)) \<and>
      percentage (nightlife (lifestyle nb)) \<and>
      percentage (familyActivities (lifestyle nb)) \<and>
      percentage (outdoorActivities (lifestyle nb)) \<and>
      percentage (culturalEvents (lifestyle nb)) \<and>
      percentage (communityEngagement (lifestyle nb)))"

definition validPriority :: "real option \<Rightarrow> bool" where
  "validPriority x = (case x of None \<Rightarrow> False | Some v \<Rightarrow> 1 \<le> v \<and> v \<le> 10)"

definition validPreferences :: "UserPreferences \<Rightarrow> bool" where
  "validPreferences preferences =
     (0 \<le> budget_min (budget preferences) \<and>
      budget_min (budget preferences) \<le> budget_max (budget preferences) \<and>
      validPriority (safety_priority (priorities preferences)) \<and>
      validPriority (amenities_priority (priorities preferences)) \<and>
      validPriority (transportation_priority (priorities preferences)) \<and>
      validPriority (lifestyle_priority (priorities preferences)) \<and>
      validPriority (affordability_priority (priorities preferences)) \<and>
      validPriority (familyFriendly_priority (priorities preferences)) \<and>
      validPriority (nightlife_priority (priorities preferences)) \<and>
      validPriority (quietness_priority (priorities preferences)))"

text \<open>A neighbourhood with its safety score replaced, everything else kept.\<close>

definition withSafetyScore :: "real \<Rightarrow> Neighborhood \<Rightarrow> Neighborhood" where
  "withSafetyScore v nb = nb\<lparr>safety := (safety nb)\<lparr>safetyScore := v\<rparr>\<rparr>"

section \<open>Example inputs\<close>

text \<open>
  A neighbourhood inside all nominal ranges whose eight sub-scores, for the preferences
  below, are 90, 60, 70, 50, 100, 40, 30 and 80.
\<close>

definition baseNeighborhood :: Neighborhood where
  "baseNeighborhood =
     \<lparr>name = ''Riverside Central'',
      location = \<lparr>city = Some ''New York''\<rparr>,
      demographics =
        \<lparr>totalPopulation = 1000, medianIncome = 200000, familyFriendly = True,
         ageGroups =
           \<lparr>under18 = 100, age18to34 = 300, age35to49 = 200, age50to64 = 250,
            over65 = 150\<rparr>\<rparr>,
      amenities =
        \<lparr>restaurants = 2, cafes = 19, bars = 1, groceryStores = 0, parks = 5, gyms = 0,
         schools = 3, hospitals = 0, shoppingCenters = 0, entertainment = 0\<rparr>,
      safety = \<lparr>crimeRate = 50, safetyScore = 90\<rparr>,
      transportation = \<lparr>walkabilityScore = 70, transitScore = 70, bikeScore = 70\<rparr>,
      lifestyle =
        \<lparr>nightlife = 40, familyActivities = 0, outdoorActivities = 50, culturalEvents = 50,
         communityEngagement = 22\<rparr>\<rparr>"

definition uniformPriorities :: Priorities where
  "uniformPriorities =
     \<lparr>safety_priority = Some 5, amenities_priority = Some 5, transportation_priority = Some 5,
      lifestyle_priority = Some 5, affordability_priority = Some 5,
      familyFriendly_priority = Some 5, nightlife_priority = Some 5,
      quietness_priority = Some 5\<rparr>"

definition uniformPreferences :: UserPreferences where
  "uniformPreferences =
     \<lparr>budget = \<lparr>budget_min = 40000, budget_max = 60000\<rparr>,
      priorities = uniformPriorities,
      userLifestyle =
        \<lparr>ageGroup = ''mixed'', activityLevel = ''high'', socialPreference = ''extrovert'',
         workStyle = ''remote''\<rparr>\<rparr>"

text \<open>The same preferences with the safety priority sent as 0.\<close>

definition zeroSafetyPreferences :: UserPreferences where
  "zeroSafetyPreferences =
     uniformPreferences\<lparr>priorities := uniformPriorities\<lparr>safety_priority := Some 0\<rparr>\<rparr>"

text \<open>The same preferences with the safety priority left out.\<close>

definition absentSafetyPreferences :: UserPreferences where
  "absentSafetyPreferences =
     uniformPreferences\<lparr>priorities := uniformPriorities\<lparr>safety_priority := None\<rparr>\<rparr>"


text \<open>Lifestyle fields outside the three closed string sets.\<close>

definition malformedPreferences :: UserPreferences where
  "malformedPreferences =
     uniformPreferences
       \<lparr>userLifestyle :=
          \<lparr>ageGroup = ''teen'', activityLevel = ''extreme'', socialPreference = ''ambivert'',
           workStyle = ''remote''\<rparr>\<rparr>"

definition malformedBody :: MatchingBody where
  "malformedBody =
     \<lparr>body_preferences = Some malformedPreferences,
      body_neighborhoods = Some [baseNeighborhood]\<rparr>"

text \<open>A neighbourhood without residents.\<close>

definition emptyNeighborhood :: Neighborhood where
  "emptyNeighborhood =
     baseNeighborhood
       \<lparr>demographics :=
          \<lparr>totalPopulation = 0, medianIncome = 200000, familyFriendly = True,
           ageGroups =
             \<lparr>under18 = 0, age18to34 = 0, age35to49 = 0, age50to64 = 0, over65 = 0\<rparr>\<rparr>\<rparr>"

text \<open>Scenario A: safety score 90, crime rate 5.\<close>

definition scenarioA :: Neighborhood where
  "scenarioA = baseNeighborhood\<lparr>safety := \<lparr>crimeRate = 5, safetyScore = 90\<rparr>\<rparr>"

text \<open>
  Four neighbourhoods with 10, 30, 40 and 55 amenities, spread over the ten counts. In the
  filter state below the first three fields have the values the page starts with; the page
  starts \<open>minAmenities\<close> at 0 and has no control that changes it, the state below has 30.
\<close>

definition withAmenities :: "string \<Rightarrow> Amenities \<Rightarrow> Neighborhood" where
  "withAmenities nm a = baseNeighborhood\<lparr>name := nm, amenities := a\<rparr>"

definition amenities10 :: Amenities where
  "amenities10 =
     \<lparr>restaurants = 1, cafes = 1, bars = 1, groceryStores = 1, parks = 1, gyms = 1,
      schools = 1, hospitals = 1, shoppingCenters = 1, entertainment = 1\<rparr>"

definition amenities30 :: Amenities where
  "amenities30 =
     \<lparr>restaurants = 6, cafes = 5, bars = 4, groceryStores = 3, parks = 2, gyms = 2,
      schools = 3, hospitals = 1, shoppingCenters = 2, entertainment = 2\<rparr>"

definition amenities40 :: Amenities where
  "amenities40 =
     \<lparr>restaurants = 1, cafes = 2, bars = 3, groceryStores = 4, parks = 5, gyms = 6,
      schools = 7, hospitals = 8, shoppingCenters = 2, entertainment = 2\<rparr>"

definition amenities55 :: Amenities where
  "amenities55 =
     \<lparr>restaurants = 10, cafes = 9, bars = 8, groceryStores = 7, parks = 6, gyms = 5,
      schools = 4, hospitals = 3, shoppingCenters = 2, entertainment = 1\<rparr>"

definition amenityFilters :: SelectedFilters where
  "amenityFilters =
     \<lparr>filter_safetyScore = 0, filter_walkabilityScore = 0, maxCrimeRate = 100,
      minAmenities = 30\<rparr>"

text \<open>
  A family of neighbourhoods, one for each choice of the three concern rules that shall
  fire (crime, budget, walkability), for the preferences above.
\<close>

definition concernsInput :: "bool \<Rightarrow> bool \<Rightarrow> bool \<Rightarrow> Neighborhood" where
  "concernsInput a b c =
     baseNeighborhood
       \<lparr>demographics :=
          (demographics baseNeighborhood)\<lparr>medianIncome := (if b then 300000 else 100000)\<rparr>,
        safety := \<lparr>crimeRate = (if a then 31 else 30), safetyScore = 90\<rparr>,
        transportation :=
          \<lparr>walkabilityScore = (if c then 29 else 30), transitScore = 70, bikeScore = 70\<rparr>\<rparr>"

section \<open>Safety, affordability and concerns\<close>

text \<open>
  C5. The safety sub-score is the safety score plus the crime bonus, capped at 100:
  \<open>min(100, safetyScore + max(0, (50 - crimeRate) / 50) * 10)\<close>, for any preferences. A
  neighbourhood with safety score 90 and crime rate 5 scores exactly 99.
\<close>

theorem safety_score_formula:
  "calculateSafetyScore preferences nb =
     min 100 (safetyScore (safety nb) + max 0 ((50 - crimeRate (safety nb)) / 50) * 10) \<and>
   (safetyScore (safety nb) = 90 \<and> crimeRate (safety nb) = 5 \<longrightarrow>
      calculateSafetyScore preferences nb = 99)"
  by (simp add: calculateSafetyScore_def MAX_SCORE_def)

theorem safety_score_formula_witness:
  "safetyScore (safety scenarioA) = 90 \<and> crimeRate (safety scenarioA) = 5 \<and>
   calculateSafetyScore uniformPreferences scenarioA = 99"
  using safety_score_formula [of uniformPreferences scenarioA]
  by (simp add: scenarioA_def)

text \<open>
  C7. With the estimated housing cost \<open>medianIncome * 0.3\<close>, the affordability sub-score
  is 100 when the cost lies in \<open>[budget.min, budget.max]\<close>, else 80 when it is at most
  \<open>budget.max * 1.2\<close>, else 50 when it is at most \<open>budget.max * 1.5\<close>, and 20 otherwise.
  For a median income of 200000 and the budget 40000 to 60000 the cost is 60000, equal to
  \<open>budget.max\<close>, and the sub-score is 100.
\<close>

theorem affordability_score_tiers:
  "calculateAffordabilityScore preferences nb =
     (if budget_min (budget preferences) \<le> medianIncome (demographics nb) * (3 / 10) \<and>
         medianIncome (demographics nb) * (3 / 10) \<le> budget_max (budget preferences)
      then 100
      else if medianIncome (demographics nb) * (3 / 10) \<le>
              budget_max (budget preferences) * (12 / 10)
      then 80
      else if medianIncome (demographics nb) * (3 / 10) \<le>
              budget_max (budget preferences) * (15 / 10)
      then 50
      else 20) \<and>
   (medianIncome (demographics nb) = 200000 \<and> budget_min (budget preferences) = 40000 \<and>
    budget_max (budget preferences) = 60000 \<longrightarrow>
      medianIncome (demographics nb) * (3 / 10) = budget_max (budget preferences) \<and>
      calculateAffordabilityScore preferences nb = 100)"
  by (simp add: calculateAffordabilityScore_def Let_def)

theorem affordability_score_tiers_witness:
  "medianIncome (demographics baseNeighborhood) = 200000 \<and>
   budget_min (budget uniformPreferences) = 40000 \<and>
   budget_max (budget uniformPreferences) = 60000 \<and>
   medianIncome (demographics baseNeighborhood) * (3 / 10) =
     budget_max (budget uniformPreferences) \<and>
   calculateAffordabilityScore uniformPreferences baseNeighborhood = 100"
  using affordability_score_tiers [of uniformPreferences baseNeighborhood]
  by (simp add: baseNeighborhood_def uniformPreferences_def)

lemma concerns_append:
  "generatePotentialConcerns preferences nb =
     (if crimeRate (safety nb) > 30 then [''Higher than average crime rate''] else []) @
     (if medianIncome (demographics nb) * (3 / 10) > budget_max (budget preferences)
      then [''May exceed your budget range''] else []) @
     (if walkabilityScore (transportation nb) < 30 then [''Limited walkability''] else [])"
  by (simp add: generatePotentialConcerns_def Let_def pushIf_def)

text \<open>
  C8. The list of concerns is the crime string if the crime rate is above 30, followed by
  the budget string if \<open>medianIncome * 0.3\<close> is above \<open>budget.max\<close>, followed by the
  walkability string if the walkability score is below 30. Each string is in the list
  exactly when its own rule holds, whatever the other two do, and each of the eight
  combinations of rules is produced by some input.
\<close>

theorem concerns_rules:
  "generatePotentialConcerns preferences nb =
     (if crimeRate (safety nb) > 30 then [''Higher than average crime rate''] else []) @
     (if medianIncome (demographics nb) * (3 / 10) > budget_max (budget preferences)
      then [''May exceed your budget range''] else []) @
     (if walkabilityScore (transportation nb) < 30 then [''Limited walkability''] else []) \<and>
   (''Higher than average crime rate'' \<in> set (generatePotentialConcerns preferences nb) \<longleftrightarrow>
      crimeRate (safety nb) > 30) \<and>
   (''May exceed your budget range'' \<in> set (generatePotentialConcerns preferences nb) \<longleftrightarrow>
      medianIncome (demographics nb) * (3 / 10) > budget_max (budget preferences)) \<and>
   (''Limited walkability'' \<in> set (generatePotentialConcerns preferences nb) \<longleftrightarrow>
      walkabilityScore (transportation nb) < 30) \<and>
   (\<forall>a b c.
      generatePotentialConcerns uniformPreferences (concernsInput a b c) =
        (if a then [''Higher than average crime rate''] else []) @
        (if b then [''May exceed your budget range''] else []) @
        (if c then [''Limited walkability''] else []))"
  by (simp add: concerns_append concernsInput_def baseNeighborhood_def uniformPreferences_def)

section \<open>Weighted aggregation: the code against the formula\<close>

lemma Math_round_mono: "x \<le> y \<Longrightarrow> Math_round x \<le> Math_round y"
  unfolding Math_round_def by (simp add: floor_mono)

lemma Math_round_of_int: "Math_round (of_int k) = of_int k"
proof -
  have "\<lfloor>real_of_int k + 1 / 2\<rfloor> = k"
    by (rule floor_unique) simp_all
  then show ?thesis by (simp add: Math_round_def)
qed

lemma Math_round_range:
  assumes "0 \<le> x" "x \<le> 100"
  shows "0 \<le> Math_round x \<and> Math_round x \<le> 100"
proof -
  have "Math_round 0 \<le> Math_round x" "Math_round x \<le> Math_round 100"
    using assms by (simp_all add: Math_round_mono)
  moreover have "Math_round 0 = 0" "Math_round 100 = 100"
    unfolding Math_round_def by simp_all
  ultimately show ?thesis by simp
qed

lemma foldl_addWeighted_None: "foldl (addWeighted w T) None es = None"
  by (induction es) (simp_all add: addWeighted_def)

lemma weightedAggregate_eight:
  "weightedAggregate w
     [(''safety'', Some s1), (''amenities'', Some s2), (''transportation'', Some s3),
      (''lifestyle'', l), (''affordability'', Some s5), (''familyFriendly'', f),
      (''nightlife'', Some s7), (''quietness'', Some s8)] =
   (case l of
      None \<Rightarrow> None
    | Some s4 \<Rightarrow>
        (case f of
           None \<Rightarrow> None
         | Some s6 \<Rightarrow>
             if totalWeightOf w = 0 then None
             else
               Some
                 (Math_round
                    ((s1 * orDefault (safety_priority w) 5 +
                      s2 * orDefault (amenities_priority w) 5 +
                      s3 * orDefault (transportation_priority w) 5 +
                      s4 * orDefault (lifestyle_priority w) 5 +
                      s5 * orDefault (affordability_priority w) 5 +
                      s6 * orDefault (familyFriendly_priority w) 5 +
                      s7 * orDefault (nightlife_priority w) 5 +
                      s8 * orDefault (quietness_priority w) 5) /
                     totalWeightOf w))))"
proof (cases l)
  case None
  then show ?thesis
    by (simp add: weightedAggregate_def Let_def addWeighted_def jsdiv_def foldl_addWeighted_None)
next
  case (Some s4)
  note l = this
  show ?thesis
  proof (cases f)
    case None
    then show ?thesis using l
      by (simp add: weightedAggregate_def Let_def addWeighted_def jsdiv_def foldl_addWeighted_None)
  next
    case (Some s6)
    then show ?thesis using l
      by (simp add: weightedAggregate_def Let_def addWeighted_def jsdiv_def weightOf_def
          add_divide_distrib)
  qed
qed

lemma calculateCompatibility_expand:
  "calculateCompatibility p nb =
   (case calculateLifestyleScore p nb of
      None \<Rightarrow> None
    | Some s4 \<Rightarrow>
        (case calculateFamilyFriendlyScore p nb of
           None \<Rightarrow> None
         | Some s6 \<Rightarrow>
             if totalWeightOf (priorities p) = 0 then None
             else
               Some
                 (Math_round
                    ((calculateSafetyScore p nb * orDefault (safety_priority (priorities p)) 5 +
                      calculateAmenitiesScore p nb * orDefault (amenities_priority (priorities p)) 5 +
                      calculateTransportationScore p nb *
                        orDefault (transportation_priority (priorities p)) 5 +
                      s4 * orDefault (lifestyle_priority (priorities p)) 5 +
                      calculateAffordabilityScore p nb *
                        orDefault (affordability_priority (priorities p)) 5 +
                      s6 * orDefault (familyFriendly_priority (priorities p)) 5 +
                      calculateNightlifeScore p nb * orDefault (nightlife_priority (priorities p)) 5 +
                      calculateQuietnessScore p nb * orDefault (quietness_priority (priorities p)) 5) /
                     totalWeightOf (priorities p)))))"
  by (simp add: calculateCompatibility_def scoreEntries_def Let_def weightedAggregate_eight)

lemma totalWeightOf_present:
  assumes "safety_priority w = Some a1" "amenities_priority w = Some a2"
    "transportation_priority w = Some a3" "lifestyle_priority w = Some a4"
    "affordability_priority w = Some a5" "familyFriendly_priority w = Some a6"
    "nightlife_priority w = Some a7" "quietness_priority w = Some a8"
  shows "totalWeightOf w = a1 + a2 + a3 + a4 + a5 + a6 + a7 + a8"
  using assms by (simp add: totalWeightOf_def priorityValues_def List.map_filter_simps)

lemma compatibility_agrees_with_spec:
  assumes "safety_priority (priorities p) = Some a1" "amenities_priority (priorities p) = Some a2"
    "transportation_priority (priorities p) = Some a3" "lifestyle_priority (priorities p) = Some a4"
    "affordability_priority (priorities p) = Some a5"
    "familyFriendly_priority (priorities p) = Some a6"
    "nightlife_priority (priorities p) = Some a7" "quietness_priority (priorities p) = Some a8"
    and "a1 \<noteq> 0" "a2 \<noteq> 0" "a3 \<noteq> 0" "a4 \<noteq> 0" "a5 \<noteq> 0" "a6 \<noteq> 0" "a7 \<noteq> 0" "a8 \<noteq> 0"
  shows "calculateCompatibility p nb = spec_compatibility p nb"
proof -
  have T: "totalWeightOf (priorities p) = a1 + a2 + a3 + a4 + a5 + a6 + a7 + a8"
    using assms(1-8) by (rule totalWeightOf_present)
  show ?thesis
    unfolding calculateCompatibility_expand spec_compatibility_def Let_def T
    using assms by (simp add: orDefault_def jsdiv_def split: option.splits)
qed

lemma baseNeighborhood_scores:
  "scoreEntries uniformPreferences baseNeighborhood =
     [(''safety'', Some 90), (''amenities'', Some 60), (''transportation'', Some 70),
      (''lifestyle'', Some 50), (''affordability'', Some 100), (''familyFriendly'', Some 40),
      (''nightlife'', Some 30), (''quietness'', Some 80)]"
  by (simp add: scoreEntries_def uniformPreferences_def baseNeighborhood_def
      calculateSafetyScore_def calculateAmenitiesScore_def calculateTransportationScore_def
      calculateLifestyleScore_def calculateAffordabilityScore_def calculateFamilyFriendlyScore_def
      calculateNightlifeScore_def calculateQuietnessScore_def MAX_SCORE_def totalAmenities_def
      amenityValues_def Math_round_def jsdiv_def calculateAgeGroupCompatibility_def
      calculateActivityCompatibility_def calculateSocialCompatibility_def)

lemma defaultedSafety_scores:
  "scoreEntries zeroSafetyPreferences baseNeighborhood =
     scoreEntries uniformPreferences baseNeighborhood"
  "scoreEntries absentSafetyPreferences baseNeighborhood =
     scoreEntries uniformPreferences baseNeighborhood"
  by (simp_all add: scoreEntries_def zeroSafetyPreferences_def absentSafetyPreferences_def
      uniformPreferences_def calculateSafetyScore_def calculateAmenitiesScore_def
      calculateTransportationScore_def calculateLifestyleScore_def
      calculateAffordabilityScore_def calculateFamilyFriendlyScore_def
      calculateNightlifeScore_def calculateQuietnessScore_def Let_def)

lemma defaultedSafety_code:
  assumes "priorities p = uniformPriorities\<lparr>safety_priority := x\<rparr>" "x = None \<or> x = Some 0"
    and "scoreEntries p baseNeighborhood = scoreEntries uniformPreferences baseNeighborhood"
  shows "totalWeightOf (priorities p) = 35"
    and "calculateCompatibility p baseNeighborhood = Some 74"
proof -
  show T: "totalWeightOf (priorities p) = 35"
    using assms(1,2)
    by (auto simp: uniformPriorities_def totalWeightOf_def priorityValues_def
        List.map_filter_simps)
  show "calculateCompatibility p baseNeighborhood = Some 74"
    unfolding calculateCompatibility_def Let_def assms(3) baseNeighborhood_scores
      weightedAggregate_eight T
    using assms(1,2) by (auto simp: uniformPriorities_def orDefault_def Math_round_def)
qed

lemma defaultedSafety_spec:
  assumes "priorities p = uniformPriorities\<lparr>safety_priority := x\<rparr>" "x = None \<or> x = Some 0"
    and "scoreEntries p baseNeighborhood = scoreEntries uniformPreferences baseNeighborhood"
  shows "spec_compatibility p baseNeighborhood = Some 65"
proof -
  have "scoreEntries p baseNeighborhood =
     [(''safety'', Some 90), (''amenities'', Some 60), (''transportation'', Some 70),
      (''lifestyle'', Some 50), (''affordability'', Some 100), (''familyFriendly'', Some 40),
      (''nightlife'', Some 30), (''quietness'', Some 80)]"
    by (simp only: assms(3) baseNeighborhood_scores)
  then show ?thesis
    using assms(1,2)
    by (auto simp: spec_compatibility_def Let_def scoreEntries_def uniformPriorities_def
        orDefault_def jsdiv_def Math_round_def)
qed

text \<open>
  C1. The claim: the overall score is the rounded quotient of the weighted sum of the
  eight sub-scores by the total weight, each weight being the priority or 5 where the
  priority is absent or falsy, and the total weight being the sum of the eight weights after
  that defaulting. The code adds up the priorities as they were sent, before any
  defaulting. With the safety priority sent as 0, or left out, and the other seven sent
  as 5, the code divides by 35 and returns 74 for sub-scores 90, 60, 70, 50, 100, 40, 30,
  80, where the formula of the claim divides by 40 and gives 65. (Lemma
  \<open>compatibility_agrees_with_spec\<close> above: in exact arithmetic the two agree whenever
  all eight priorities are present and non-zero.)
\<close>

theorem zero_priority_total_weight:
  "safety_priority (priorities zeroSafetyPreferences) = Some 0 \<and>
   totalWeightOf (priorities zeroSafetyPreferences) = 35 \<and>
   calculateCompatibility zeroSafetyPreferences baseNeighborhood = Some 74 \<and>
   spec_compatibility zeroSafetyPreferences baseNeighborhood = Some 65 \<and>
   safety_priority (priorities absentSafetyPreferences) = None \<and>
   totalWeightOf (priorities absentSafetyPreferences) = 35 \<and>
   calculateCompatibility absentSafetyPreferences baseNeighborhood = Some 74 \<and>
   spec_compatibility absentSafetyPreferences baseNeighborhood = Some 65"
proof -
  have z: "priorities zeroSafetyPreferences = uniformPriorities\<lparr>safety_priority := Some 0\<rparr>"
    by (simp add: zeroSafetyPreferences_def)
  have a: "priorities absentSafetyPreferences = uniformPriorities\<lparr>safety_priority := None\<rparr>"
    by (simp add: absentSafetyPreferences_def)
  have "safety_priority (priorities zeroSafetyPreferences) = Some 0"
    "safety_priority (priorities absentSafetyPreferences) = None"
    by (simp_all add: z a)
  moreover note defaultedSafety_code [OF z _ defaultedSafety_scores(1)]
    defaultedSafety_spec [OF z _ defaultedSafety_scores(1)]
    defaultedSafety_code [OF a _ defaultedSafety_scores(2)]
    defaultedSafety_spec [OF a _ defaultedSafety_scores(2)]
  ultimately show ?thesis by simp
qed

section \<open>Uniform weights\<close>

lemma totalWeightOf_uniform: "totalWeightOf uniformPriorities = 40"
  by (simp add: uniformPriorities_def totalWeightOf_def priorityValues_def List.map_filter_simps)

text \<open>
  C4, as amended. When all eight priorities are present and equal to 5, the overall score
  is the unweighted mean of the eight sub-scores, rounded (and non-finite when a sub-score
  is). The sub-scores 90, 60, 70, 50, 100, 40, 30, 80 have the sum 520 and the mean 65, and
  they aggregate to 65, not to 60 as the claim has it.
\<close>

theorem uniform_weights_give_mean:
  "(priorities p = uniformPriorities \<longrightarrow>
      calculateCompatibility p nb = map_option Math_round (unweightedMean (scoreEntries p nb))) \<and>
   weightedAggregate uniformPriorities
     [(''safety'', Some 90), (''amenities'', Some 60), (''transportation'', Some 70),
      (''lifestyle'', Some 50), (''affordability'', Some 100), (''familyFriendly'', Some 40),
      (''nightlife'', Some 30), (''quietness'', Some 80)] = Some 65"
proof -
  have agg: "weightedAggregate uniformPriorities
     [(''safety'', Some 90), (''amenities'', Some 60), (''transportation'', Some 70),
      (''lifestyle'', Some 50), (''affordability'', Some 100), (''familyFriendly'', Some 40),
      (''nightlife'', Some 30), (''quietness'', Some 80)] = Some 65"
    unfolding weightedAggregate_eight
    by (simp add: totalWeightOf_uniform) (simp add: uniformPriorities_def orDefault_def Math_round_def)
  have gen: "calculateCompatibility p nb =
      map_option Math_round (unweightedMean (scoreEntries p nb))"
    if u: "priorities p = uniformPriorities"
  proof -
    have w: "orDefault (safety_priority uniformPriorities) 5 = 5"
      "orDefault (amenities_priority uniformPriorities) 5 = 5"
      "orDefault (transportation_priority uniformPriorities) 5 = 5"
      "orDefault (lifestyle_priority uniformPriorities) 5 = 5"
      "orDefault (affordability_priority uniformPriorities) 5 = 5"
      "orDefault (familyFriendly_priority uniformPriorities) 5 = 5"
      "orDefault (nightlife_priority uniformPriorities) 5 = 5"
      "orDefault (quietness_priority uniformPriorities) 5 = 5"
      by (simp_all add: uniformPriorities_def orDefault_def)
    have q: "(s1 * 5 + s2 * 5 + s3 * 5 + s4 * 5 + s5 * 5 + s6 * 5 + s7 * 5 + s8 * 5) / 40 =
        (s1 + (s2 + (s3 + (s4 + (s5 + (s6 + (s7 + s8))))))) / 8"
      for s1 s2 s3 s4 s5 s6 s7 s8 :: real
      by simp
    show ?thesis
      unfolding calculateCompatibility_expand u w totalWeightOf_uniform q
      by (simp add: unweightedMean_def scoreEntries_def split: option.splits)
  qed
  show ?thesis using agg gen by blast
qed

theorem uniform_weights_give_mean_witness:
  "priorities uniformPreferences = uniformPriorities \<and>
   unweightedMean (scoreEntries uniformPreferences baseNeighborhood) = Some 65 \<and>
   calculateCompatibility uniformPreferences baseNeighborhood = Some 65"
proof -
  have u: "priorities uniformPreferences = uniformPriorities"
    by (simp add: uniformPreferences_def)
  have m: "unweightedMean (scoreEntries uniformPreferences baseNeighborhood) = Some 65"
    by (simp add: baseNeighborhood_scores unweightedMean_def)
  from uniform_weights_give_mean [of uniformPreferences baseNeighborhood] u
  have "calculateCompatibility uniformPreferences baseNeighborhood =
      map_option Math_round (unweightedMean (scoreEntries uniformPreferences baseNeighborhood))"
    by blast
  then show ?thesis using u m by (simp add: Math_round_def)
qed

text \<open>
  C4, the counterexample to the claim as stated: the example neighbourhood has exactly the
  sub-scores of Scenario B under uniform priorities, and its overall score is 65.
\<close>

theorem scenarioB_aggregate_counterexample:
  "priorities uniformPreferences = uniformPriorities \<and>
   scoreEntries uniformPreferences baseNeighborhood =
     [(''safety'', Some 90), (''amenities'', Some 60), (''transportation'', Some 70),
      (''lifestyle'', Some 50), (''affordability'', Some 100), (''familyFriendly'', Some 40),
      (''nightlife'', Some 30), (''quietness'', Some 80)] \<and>
   calculateCompatibility uniformPreferences baseNeighborhood = Some 65 \<and>
   calculateCompatibility uniformPreferences baseNeighborhood \<noteq> Some 60"
proof -
  have c: "calculateCompatibility uniformPreferences baseNeighborhood = Some 65"
    unfolding calculateCompatibility_def Let_def baseNeighborhood_scores weightedAggregate_eight
    by (simp add: uniformPreferences_def totalWeightOf_uniform)
      (simp add: uniformPriorities_def orDefault_def Math_round_def)
  show ?thesis
    using c baseNeighborhood_scores by (simp add: uniformPreferences_def)
qed

section \<open>Neighbourhoods without residents\<close>

lemma zero_population_general:
  assumes "totalPopulation (demographics nb) = 0"
  shows "calculateAgeGroupCompatibility ''young'' (demographics nb) = None"
    and "calculateAgeGroupCompatibility ''family'' (demographics nb) = None"
    and "calculateAgeGroupCompatibility ''senior'' (demographics nb) = None"
    and "calculateFamilyFriendlyScore p nb = None"
    and "calculateCompatibility p nb = None"
proof -
  show "calculateAgeGroupCompatibility ''young'' (demographics nb) = None"
    "calculateAgeGroupCompatibility ''family'' (demographics nb) = None"
    "calculateAgeGroupCompatibility ''senior'' (demographics nb) = None"
    using assms by (simp_all add: calculateAgeGroupCompatibility_def jsdiv_def)
  show f: "calculateFamilyFriendlyScore p nb = None"
    using assms by (simp add: calculateFamilyFriendlyScore_def Let_def jsdiv_def)
  show "calculateCompatibility p nb = None"
    unfolding calculateCompatibility_expand f by (simp split: option.splits)
qed

text \<open>
  C3. The claim: with a total population of 0 the population term of the
  family-friendliness score and the age-group compatibility for \<open>young\<close>, \<open>family\<close>
  and \<open>senior\<close> are 0, and \<open>calculateFamilyFriendlyScore\<close> and
  \<open>calculateCompatibility\<close> return well-defined numbers. The code divides by the
  population without a guard: nothing is raised, but on the neighbourhood without residents
  the three age-group compatibilities, the family-friendliness score and the overall score
  are all non-finite (\<open>0 / 0\<close> is \<open>NaN\<close>), not 0.
\<close>

theorem zero_population_not_guarded:
  "totalPopulation (demographics emptyNeighborhood) = 0 \<and>
   calculateAgeGroupCompatibility ''young'' (demographics emptyNeighborhood) = None \<and>
   calculateAgeGroupCompatibility ''family'' (demographics emptyNeighborhood) = None \<and>
   calculateAgeGroupCompatibility ''senior'' (demographics emptyNeighborhood) = None \<and>
   calculateFamilyFriendlyScore uniformPreferences emptyNeighborhood = None \<and>
   calculateFamilyFriendlyScore uniformPreferences emptyNeighborhood \<noteq> Some 0 \<and>
   calculateCompatibility uniformPreferences emptyNeighborhood = None"
proof -
  have z: "totalPopulation (demographics emptyNeighborhood) = 0"
    by (simp add: emptyNeighborhood_def)
  show ?thesis
    using z zero_population_general [OF z] by simp
qed

section \<open>Ranges of the sub-scores\<close>

lemma percentage_simps: "percentage x \<longleftrightarrow> 0 \<le> x \<and> x \<le> 100"
  by (simp add: percentage_def)

lemma safety_bounds:
  assumes "percentage (safetyScore (safety nb))"
  shows "0 \<le> calculateSafetyScore p nb \<and> calculateSafetyScore p nb \<le> 100"
  using assms by (simp add: calculateSafetyScore_def MAX_SCORE_def percentage_def Let_def)

lemma amenities_bounds:
  assumes "validAmenities (amenities nb)"
  shows "0 \<le> calculateAmenitiesScore p nb \<and> calculateAmenitiesScore p nb \<le> 100"
  using assms
  by (simp add: calculateAmenitiesScore_def validAmenities_def amenityValues_def
      totalAmenities_def)

lemma transportation_bounds:
  assumes "percentage (walkabilityScore (transportation nb))"
    "percentage (transitScore (transportation nb))" "percentage (bikeScore (transportation nb))"
  shows "0 \<le> calculateTransportationScore p nb \<and> calculateTransportationScore p nb \<le> 100"
  unfolding calculateTransportationScore_def
  using assms by (intro Math_round_range) (simp_all add: percentage_def)

lemma activity_bounds:
  assumes "percentage (outdoorActivities l)" "percentage (culturalEvents l)"
  shows "0 \<le> calculateActivityCompatibility a l \<and> calculateActivityCompatibility a l \<le> 100"
proof -
  have "0 \<le> Math_round x \<and> Math_round x \<le> 100" if "0 \<le> x" "x \<le> 100" for x
    using that by (rule Math_round_range)
  then show ?thesis
    using assms by (simp add: calculateActivityCompatibility_def Let_def percentage_def)
qed

lemma social_bounds:
  assumes "percentage (communityEngagement l)" "percentage (nightlife l)"
  shows "0 \<le> calculateSocialCompatibility a l \<and> calculateSocialCompatibility a l \<le> 100"
proof -
  have "0 \<le> Math_round x \<and> Math_round x \<le> 100" if "0 \<le> x" "x \<le> 100" for x
    using that by (rule Math_round_range)
  then show ?thesis
    using assms by (simp add: calculateSocialCompatibility_def Let_def percentage_def)
qed

lemma share_Some:
  fixes a t :: real
  assumes "0 \<le> a" "a \<le> t" "0 < t"
  shows "\<exists>x. map_option (\<lambda>q. q * 100) (jsdiv a t) = Some x \<and> 0 \<le> x \<and> x \<le> 100"
proof -
  have "jsdiv a t = Some (a / t)"
    using assms(3) by (simp add: jsdiv_def)
  moreover have "0 \<le> a / t * 100" "a / t * 100 \<le> 100"
    using assms by (simp_all add: field_simps)
  ultimately show ?thesis by simp
qed

lemma family_sum_bounds:
  fixes a b q :: real
  assumes "0 \<le> a" "0 \<le> b" "0 \<le> q" "q \<le> 1"
  shows "0 \<le> 0 + min 25 a + min 25 b + q * 50" "0 + min 25 a + min 25 b + q * 50 \<le> 100"
  using assms by (simp_all add: min_def)

lemma ageGroup_bounds:
  assumes "validAgeGroups d" "0 < totalPopulation d"
  shows "\<exists>a. calculateAgeGroupCompatibility g d = Some a \<and> 0 \<le> a \<and> a \<le> 100"
proof -
  have young: "\<exists>x. map_option (\<lambda>q. q * 100)
      (jsdiv (age18to34 (ageGroups d)) (totalPopulation d)) = Some x \<and> 0 \<le> x \<and> x \<le> 100"
    using assms by (intro share_Some) (simp_all add: validAgeGroups_def)
  have family: "\<exists>x. map_option (\<lambda>q. q * 100)
      (jsdiv (age35to49 (ageGroups d) + under18 (ageGroups d)) (totalPopulation d)) = Some x \<and>
      0 \<le> x \<and> x \<le> 100"
    using assms by (intro share_Some) (simp_all add: validAgeGroups_def)
  have senior: "\<exists>x. map_option (\<lambda>q. q * 100)
      (jsdiv (over65 (ageGroups d)) (totalPopulation d)) = Some x \<and> 0 \<le> x \<and> x \<le> 100"
    using assms by (intro share_Some) (simp_all add: validAgeGroups_def)
  show ?thesis
    unfolding calculateAgeGroupCompatibility_def
    using young family senior by simp
qed

lemma lifestyle_bounds:
  assumes "validNeighborhood nb" "0 < totalPopulation (demographics nb)"
  shows "\<exists>s. calculateLifestyleScore p nb = Some s \<and> 0 \<le> s \<and> s \<le> 100"
proof -
  obtain a where a: "calculateAgeGroupCompatibility (ageGroup (userLifestyle p))
      (demographics nb) = Some a" "0 \<le> a" "a \<le> 100"
    using ageGroup_bounds [of "demographics nb"] assms by (auto simp: validNeighborhood_def)
  have b: "0 \<le> calculateActivityCompatibility (activityLevel (userLifestyle p)) (lifestyle nb) \<and>
      calculateActivityCompatibility (activityLevel (userLifestyle p)) (lifestyle nb) \<le> 100"
    using assms(1) by (intro activity_bounds) (simp_all add: validNeighborhood_def)
  have c: "0 \<le> calculateSocialCompatibility (socialPreference (userLifestyle p)) (lifestyle nb) \<and>
      calculateSocialCompatibility (socialPreference (userLifestyle p)) (lifestyle nb) \<le> 100"
    using assms(1) by (intro social_bounds) (simp_all add: validNeighborhood_def)
  have "0 \<le> Math_round x \<and> Math_round x \<le> 100" if "0 \<le> x" "x \<le> 100" for x
    using that by (rule Math_round_range)
  then show ?thesis
    using a b c by (simp add: calculateLifestyleScore_def Let_def)
qed

lemma affordability_bounds:
  "0 \<le> calculateAffordabilityScore p nb \<and> calculateAffordabilityScore p nb \<le> 100"
  by (simp add: calculateAffordabilityScore_def Let_def)

lemma familyFriendly_bounds:
  assumes "validNeighborhood nb" "0 < totalPopulation (demographics nb)"
  shows "\<exists>s. calculateFamilyFriendlyScore p nb = Some s \<and> 0 \<le> s \<and> s \<le> 100"
proof -
  let ?d = "demographics nb"
  let ?q = "(under18 (ageGroups ?d) + age35to49 (ageGroups ?d)) / totalPopulation ?d"
  have v: "validAgeGroups ?d" "validAmenities (amenities nb)"
    "percentage (familyActivities (lifestyle nb))"
    using assms(1) by (simp_all add: validNeighborhood_def)
  have q: "0 \<le> ?q" "?q \<le> 1"
    using v(1) assms(2) by (simp_all add: validAgeGroups_def)
  have s: "0 \<le> schools (amenities nb)" "0 \<le> parks (amenities nb)"
    "0 \<le> familyActivities (lifestyle nb)"
    using v(2,3) by (simp_all add: validAmenities_def amenityValues_def percentage_def)
  let ?x = "0 + min 25 (schools (amenities nb) * 5) +
      min 25 ((parks (amenities nb) + familyActivities (lifestyle nb)) * 2) + ?q * 50"
  have "0 \<le> ?x" "?x \<le> 100"
    using q s by (intro family_sum_bounds; simp)+
  then have "0 \<le> Math_round ?x \<and> Math_round ?x \<le> 100"
    by (rule Math_round_range)
  then show ?thesis
    using assms(2) by (simp add: calculateFamilyFriendlyScore_def Let_def jsdiv_def)
qed

lemma nightlife_bounds:
  assumes "validNeighborhood nb"
  shows "0 \<le> calculateNightlifeScore p nb \<and> calculateNightlifeScore p nb \<le> 100"
proof -
  have "0 \<le> bars (amenities nb)" "0 \<le> restaurants (amenities nb)"
    "0 \<le> nightlife (lifestyle nb)" "nightlife (lifestyle nb) \<le> 100"
    using assms
    by (simp_all add: validNeighborhood_def validAmenities_def amenityValues_def percentage_def)
  then show ?thesis
    unfolding calculateNightlifeScore_def
    by (intro Math_round_range) (simp_all add: min_def)
qed

lemma quietness_bounds:
  assumes "validNeighborhood nb"
  shows "0 \<le> calculateQuietnessScore p nb \<and> calculateQuietnessScore p nb \<le> 100"
proof -
  have "0 \<le> entertainment (amenities nb)" "0 \<le> nightlife (lifestyle nb)"
    using assms
    by (simp_all add: validNeighborhood_def validAmenities_def amenityValues_def percentage_def)
  then show ?thesis
    unfolding calculateQuietnessScore_def Let_def
    by (intro Math_round_range) simp_all
qed

lemma weighted_mean_bounds:
  fixes s1 s2 s3 s4 s5 s6 s7 s8 :: real
  assumes s: "0 \<le> s1 \<and> s1 \<le> 100" "0 \<le> s2 \<and> s2 \<le> 100" "0 \<le> s3 \<and> s3 \<le> 100"
    "0 \<le> s4 \<and> s4 \<le> 100" "0 \<le> s5 \<and> s5 \<le> 100" "0 \<le> s6 \<and> s6 \<le> 100"
    "0 \<le> s7 \<and> s7 \<le> 100" "0 \<le> s8 \<and> s8 \<le> 100"
    and w: "0 < w1" "0 < w2" "0 < w3" "0 < w4" "0 < w5" "0 < w6" "0 < w7" "0 < w8"
  shows "0 \<le> (s1 * w1 + s2 * w2 + s3 * w3 + s4 * w4 + s5 * w5 + s6 * w6 + s7 * w7 + s8 * w8) /
           (w1 + w2 + w3 + w4 + w5 + w6 + w7 + w8) \<and>
         (s1 * w1 + s2 * w2 + s3 * w3 + s4 * w4 + s5 * w5 + s6 * w6 + s7 * w7 + s8 * w8) /
           (w1 + w2 + w3 + w4 + w5 + w6 + w7 + w8) \<le> 100"
proof -
  have prod: "0 \<le> x * y \<and> x * y \<le> 100 * y" if "0 \<le> x \<and> x \<le> 100" "0 < y" for x y :: real
    using that by (simp add: mult_right_mono)
  note t = prod [OF s(1) w(1)] prod [OF s(2) w(2)] prod [OF s(3) w(3)] prod [OF s(4) w(4)]
    prod [OF s(5) w(5)] prod [OF s(6) w(6)] prod [OF s(7) w(7)] prod [OF s(8) w(8)]
  have pos: "0 < w1 + w2 + w3 + w4 + w5 + w6 + w7 + w8"
    using w by linarith
  have lo: "0 \<le> s1 * w1 + s2 * w2 + s3 * w3 + s4 * w4 + s5 * w5 + s6 * w6 + s7 * w7 + s8 * w8"
    using t by (intro add_nonneg_nonneg) simp_all
  have "s1 * w1 + s2 * w2 + s3 * w3 + s4 * w4 + s5 * w5 + s6 * w6 + s7 * w7 + s8 * w8 \<le>
      100 * w1 + 100 * w2 + 100 * w3 + 100 * w4 + 100 * w5 + 100 * w6 + 100 * w7 + 100 * w8"
    using t by (intro add_mono) simp_all
  also have "\<dots> = 100 * (w1 + w2 + w3 + w4 + w5 + w6 + w7 + w8)"
    by simp
  finally have hi:
    "s1 * w1 + s2 * w2 + s3 * w3 + s4 * w4 + s5 * w5 + s6 * w6 + s7 * w7 + s8 * w8 \<le>
      100 * (w1 + w2 + w3 + w4 + w5 + w6 + w7 + w8)" .
  show ?thesis
    using pos lo hi by (simp add: pos_divide_le_eq)
qed

section \<open>Range of the overall score\<close>

lemma validPriority_Some:
  assumes "validPriority x"
  obtains v where "x = Some v" "1 \<le> v" "v \<le> 10" "orDefault x 5 = v"
  using assms by (cases x) (auto simp: validPriority_def orDefault_def)

lemma compatibility_in_range:
  assumes p: "validPreferences p" and nb: "validNeighborhood nb"
    and pop: "0 < totalPopulation (demographics nb)"
  shows "\<exists>k::int. calculateCompatibility p nb = Some (of_int k) \<and> 0 \<le> k \<and> k \<le> 100"
proof -
  let ?w = "priorities p"
  obtain a1 where a1: "safety_priority ?w = Some a1" "1 \<le> a1" "a1 \<le> 10"
      "orDefault (safety_priority ?w) 5 = a1"
    using p by (auto simp: validPreferences_def elim: validPriority_Some)
  obtain a2 where a2: "amenities_priority ?w = Some a2" "1 \<le> a2" "a2 \<le> 10"
      "orDefault (amenities_priority ?w) 5 = a2"
    using p by (auto simp: validPreferences_def elim: validPriority_Some)
  obtain a3 where a3: "transportation_priority ?w = Some a3" "1 \<le> a3" "a3 \<le> 10"
      "orDefault (transportation_priority ?w) 5 = a3"
    using p by (auto simp: validPreferences_def elim: validPriority_Some)
  obtain a4 where a4: "lifestyle_priority ?w = Some a4" "1 \<le> a4" "a4 \<le> 10"
      "orDefault (lifestyle_priority ?w) 5 = a4"
    using p by (auto simp: validPreferences_def elim: validPriority_Some)
  obtain a5 where a5: "affordability_priority ?w = Some a5" "1 \<le> a5" "a5 \<le> 10"
      "orDefault (affordability_priority ?w) 5 = a5"
    using p by (auto simp: validPreferences_def elim: validPriority_Some)
  obtain a6 where a6: "familyFriendly_priority ?w = Some a6" "1 \<le> a6" "a6 \<le> 10"
      "orDefault (familyFriendly_priority ?w) 5 = a6"
    using p by (auto simp: validPreferences_def elim: validPriority_Some)
  obtain a7 where a7: "nightlife_priority ?w = Some a7" "1 \<le> a7" "a7 \<le> 10"
      "orDefault (nightlife_priority ?w) 5 = a7"
    using p by (auto simp: validPreferences_def elim: validPriority_Some)
  obtain a8 where a8: "quietness_priority ?w = Some a8" "1 \<le> a8" "a8 \<le> 10"
      "orDefault (quietness_priority ?w) 5 = a8"
    using p by (auto simp: validPreferences_def elim: validPriority_Some)
  have T: "totalWeightOf ?w = a1 + a2 + a3 + a4 + a5 + a6 + a7 + a8"
    using a1(1) a2(1) a3(1) a4(1) a5(1) a6(1) a7(1) a8(1) by (rule totalWeightOf_present)
  have Tpos: "totalWeightOf ?w \<noteq> 0"
    unfolding T using a1(2) a2(2) a3(2) a4(2) a5(2) a6(2) a7(2) a8(2) by linarith
  obtain s4 where s4: "calculateLifestyleScore p nb = Some s4" "0 \<le> s4 \<and> s4 \<le> 100"
    using lifestyle_bounds [OF nb pop] by blast
  obtain s6 where s6: "calculateFamilyFriendlyScore p nb = Some s6" "0 \<le> s6 \<and> s6 \<le> 100"
    using familyFriendly_bounds [OF nb pop] by blast
  have s1: "0 \<le> calculateSafetyScore p nb \<and> calculateSafetyScore p nb \<le> 100"
    using nb by (intro safety_bounds) (simp add: validNeighborhood_def)
  have s2: "0 \<le> calculateAmenitiesScore p nb \<and> calculateAmenitiesScore p nb \<le> 100"
    using nb by (intro amenities_bounds) (simp add: validNeighborhood_def)
  have s3: "0 \<le> calculateTransportationScore p nb \<and> calculateTransportationScore p nb \<le> 100"
    using nb by (intro transportation_bounds) (simp_all add: validNeighborhood_def)
  note s5 = affordability_bounds [of p nb]
  note s7 = nightlife_bounds [OF nb, of p]
  note s8 = quietness_bounds [OF nb, of p]
  let ?x = "(calculateSafetyScore p nb * a1 + calculateAmenitiesScore p nb * a2 +
      calculateTransportationScore p nb * a3 + s4 * a4 + calculateAffordabilityScore p nb * a5 +
      s6 * a6 + calculateNightlifeScore p nb * a7 + calculateQuietnessScore p nb * a8) /
     (a1 + a2 + a3 + a4 + a5 + a6 + a7 + a8)"
  have "0 \<le> ?x \<and> ?x \<le> 100"
    using s1 s2 s3 s4(2) s5 s6(2) s7 s8
    by (rule weighted_mean_bounds)
      (use a1(2) a2(2) a3(2) a4(2) a5(2) a6(2) a7(2) a8(2) in simp_all)
  then have r: "0 \<le> Math_round ?x \<and> Math_round ?x \<le> 100"
    by (intro Math_round_range) simp_all
  have c: "calculateCompatibility p nb = Some (Math_round ?x)"
    unfolding calculateCompatibility_expand s4(1) s6(1) a1(4) a2(4) a3(4) a4(4) a5(4) a6(4)
      a7(4) a8(4)
    using Tpos by (simp add: T)
  have "Math_round ?x = of_int \<lfloor>?x + 1 / 2\<rfloor>"
    by (simp add: Math_round_def)
  with r c show ?thesis
    by (intro exI [of _ "\<lfloor>?x + 1 / 2\<rfloor>"]) simp
qed

lemma emptyNeighborhood_valid: "validNeighborhood emptyNeighborhood"
  by (simp add: validNeighborhood_def emptyNeighborhood_def baseNeighborhood_def
      validAgeGroups_def validAmenities_def amenityValues_def percentage_def)

lemma uniformPreferences_valid: "validPreferences uniformPreferences"
  by (simp add: validPreferences_def uniformPreferences_def uniformPriorities_def
      validPriority_def)

text \<open>
  C2. The claim: for every valid pair (neighbourhood fields inside the nominal ranges of the
  data model, budget ordered and non-negative, priorities between 1 and 10) the overall
  score is an integer between 0 and 100. Lemma \<open>compatibility_in_range\<close> above shows
  this for every valid pair whose neighbourhood has a positive population. The data model
  allows a population of 0, and there the unguarded division makes the score non-finite:
  the example preferences and the neighbourhood without residents are both valid, and the
  score is \<open>NaN\<close>.
\<close>

theorem valid_pair_score_not_finite:
  "validPreferences uniformPreferences \<and> validNeighborhood emptyNeighborhood \<and>
   calculateCompatibility uniformPreferences emptyNeighborhood = None"
proof -
  have z: "totalPopulation (demographics emptyNeighborhood) = 0"
    by (simp add: emptyNeighborhood_def)
  show ?thesis
    using zero_population_general(5) [OF z] emptyNeighborhood_valid uniformPreferences_valid
    by simp
qed

section \<open>Monotonicity in the safety score\<close>

lemma withSafetyScore_safety:
  "calculateSafetyScore p (withSafetyScore v nb) =
     min 100 (v + max 0 ((50 - crimeRate (safety nb)) / 50) * 10)"
  by (simp add: calculateSafetyScore_def withSafetyScore_def MAX_SCORE_def)







lemma safety_score_plateau:
  assumes "crimeRate (safety nb) \<le> - 100"
  shows "calculateSafetyScore p (withSafetyScore 70 nb) = 100"
    and "calculateSafetyScore p (withSafetyScore 95 nb) = 100"
  using assms by (simp_all add: withSafetyScore_safety min_def max_def)






section \<open>Malformed lifestyle values\<close>

lemma malformed_scores:
  "scoreEntries malformedPreferences baseNeighborhood =
     [(''safety'', Some 90), (''amenities'', Some 60), (''transportation'', Some 70),
      (''lifestyle'', Some 50), (''affordability'', Some 100), (''familyFriendly'', Some 40),
      (''nightlife'', Some 30), (''quietness'', Some 80)]"
  by (simp add: scoreEntries_def malformedPreferences_def uniformPreferences_def
      baseNeighborhood_def
      calculateSafetyScore_def calculateAmenitiesScore_def calculateTransportationScore_def
      calculateLifestyleScore_def calculateAffordabilityScore_def calculateFamilyFriendlyScore_def
      calculateNightlifeScore_def calculateQuietnessScore_def MAX_SCORE_def totalAmenities_def
      amenityValues_def Math_round_def jsdiv_def calculateAgeGroupCompatibility_def
      calculateActivityCompatibility_def calculateSocialCompatibility_def)

text \<open>
  C9, as amended. The route rejects a request only when the preferences or the
  neighbourhoods are missing; a request that carries both, each of its declared shape, is
  answered with one matching result per neighbourhood, whatever the lifestyle strings are. An age group, activity
  level or social preference outside its closed string set is not rejected: the
  corresponding compatibility falls into the \<open>default\<close> branch and is the neutral 50,
  and the score is computed with it.
\<close>

theorem malformed_enums_default:
  "(body_preferences body = Some p \<and> body_neighborhoods body = Some ns \<longrightarrow>
      matchingRoutes_post body = Inr (map (generateMatchingResult p) ns)) \<and>
   (isl (matchingRoutes_post body) \<longleftrightarrow>
      body_preferences body = None \<or> body_neighborhoods body = None) \<and>
   (g \<notin> {''young'', ''family'', ''senior'', ''mixed''} \<longrightarrow>
      calculateAgeGroupCompatibility g d = Some 50) \<and>
   (a \<notin> {''high'', ''medium'', ''low''} \<longrightarrow> calculateActivityCompatibility a l = 50) \<and>
   (s \<notin> {''extrovert'', ''introvert'', ''balanced''} \<longrightarrow>
      calculateSocialCompatibility s l = 50)"
  by (simp add: matchingRoutes_post_def calculateAgeGroupCompatibility_def
      calculateActivityCompatibility_def calculateSocialCompatibility_def Let_def
      split: option.splits)

theorem malformed_enums_default_witness:
  "body_preferences malformedBody = Some malformedPreferences \<and>
   body_neighborhoods malformedBody = Some [baseNeighborhood] \<and>
   ''teen'' \<notin> {''young'', ''family'', ''senior'', ''mixed''} \<and>
   ''extreme'' \<notin> {''high'', ''medium'', ''low''} \<and>
   ''ambivert'' \<notin> {''extrovert'', ''introvert'', ''balanced''} \<and>
   matchingRoutes_post malformedBody =
     Inr (map (generateMatchingResult malformedPreferences) [baseNeighborhood]) \<and>
   calculateAgeGroupCompatibility ''teen'' (demographics baseNeighborhood) = Some 50 \<and>
   calculateActivityCompatibility ''extreme'' (lifestyle baseNeighborhood) = 50 \<and>
   calculateSocialCompatibility ''ambivert'' (lifestyle baseNeighborhood) = 50"
  using malformed_enums_default [of malformedBody malformedPreferences "[baseNeighborhood]"
      "''teen''" "demographics baseNeighborhood" "''extreme''" "lifestyle baseNeighborhood"
      "''ambivert''"]
  by (simp add: malformedBody_def)

text \<open>
  C9, the counterexample to the claim as stated: a request whose three lifestyle fields
  are all outside their string sets is answered with a result, of overall score 65.
\<close>

theorem malformed_enums_counterexample:
  "ageGroup (userLifestyle malformedPreferences) \<notin> {''young'', ''family'', ''senior'', ''mixed''} \<and>
   activityLevel (userLifestyle malformedPreferences) \<notin> {''high'', ''medium'', ''low''} \<and>
   socialPreference (userLifestyle malformedPreferences) \<notin>
     {''extrovert'', ''introvert'', ''balanced''} \<and>
   matchingRoutes_post malformedBody =
     Inr [generateMatchingResult malformedPreferences baseNeighborhood] \<and>
   compatibilityScore (generateMatchingResult malformedPreferences baseNeighborhood) = Some 65"
proof -
  have T: "totalWeightOf (priorities malformedPreferences) = 40"
    by (simp add: malformedPreferences_def uniformPreferences_def totalWeightOf_uniform)
  have c: "calculateCompatibility malformedPreferences baseNeighborhood = Some 65"
    unfolding calculateCompatibility_def Let_def malformed_scores weightedAggregate_eight T
    by (simp add: malformedPreferences_def uniformPreferences_def uniformPriorities_def
        orDefault_def Math_round_def)
  show ?thesis
    using c
    by (simp add: matchingRoutes_post_def malformedBody_def generateMatchingResult_def)
      (simp add: malformedPreferences_def)
qed

section \<open>The amenity filter\<close>

lemma totalAmenities_sum:
  "totalAmenities a =
     restaurants a + cafes a + bars a + groceryStores a + parks a + gyms a + schools a +
     hospitals a + shoppingCenters a + entertainment a"
  by (simp add: totalAmenities_def amenityValues_def)

lemma filteredNeighborhoods_staged:
  "filteredNeighborhoods toLowerCase neighborhoods searchTerm f =
     filter
       (\<lambda>nb. restaurants (amenities nb) + cafes (amenities nb) + bars (amenities nb) +
          groceryStores (amenities nb) + parks (amenities nb) + gyms (amenities nb) +
          schools (amenities nb) + hospitals (amenities nb) + shoppingCenters (amenities nb) +
          entertainment (amenities nb) \<ge> minAmenities f)
       (filter
          (\<lambda>nb. matchesSearch toLowerCase searchTerm nb \<and> matchesSafety f nb \<and>
             matchesWalkability f nb \<and> matchesCrimeRate f nb)
          neighborhoods)"
  by (auto simp: filteredNeighborhoods_def matchesAmenities_def totalAmenities_sum
      intro: filter_cong)

lemma filteredNeighborhoods_others_pass:
  assumes "\<forall>nb \<in> set ns.
      matchesSearch toLowerCase searchTerm nb \<and> matchesSafety f nb \<and>
      matchesWalkability f nb \<and> matchesCrimeRate f nb"
  shows "filteredNeighborhoods toLowerCase ns searchTerm f =
     filter
       (\<lambda>nb. restaurants (amenities nb) + cafes (amenities nb) + bars (amenities nb) +
          groceryStores (amenities nb) + parks (amenities nb) + gyms (amenities nb) +
          schools (amenities nb) + hospitals (amenities nb) + shoppingCenters (amenities nb) +
          entertainment (amenities nb) \<ge> minAmenities f)
       ns"
  unfolding filteredNeighborhoods_def
  using assms by (intro filter_cong) (auto simp: matchesAmenities_def totalAmenities_sum)

text \<open>
  C10. The amenity test of the filter keeps a neighbourhood exactly when the sum of its ten
  amenity counts (restaurants, cafes, bars, grocery stores, parks, gyms, schools, hospitals,
  shopping centers, entertainment) is at least \<open>minAmenities\<close>. It is one of five tests
  of a single \<open>filter\<close> call: for every list and every threshold the result is what the
  amenity test keeps, in the original order, of what the other four tests (the search term,
  the minimum safety and walkability scores, the maximum crime rate) keep. On a list whose
  members all pass the other four, the filtered list is the sublist of the neighbourhoods
  whose ten counts sum to at least \<open>minAmenities\<close>, in their original order. For three
  such neighbourhoods whose counts sum to 10, 40 and 55, and \<open>minAmenities = 30\<close>, the
  result is the last two, in that order.
\<close>

theorem amenity_filter:
  "filteredNeighborhoods toLowerCase neighborhoods searchTerm f =
     filter
       (\<lambda>nb. restaurants (amenities nb) + cafes (amenities nb) + bars (amenities nb) +
          groceryStores (amenities nb) + parks (amenities nb) + gyms (amenities nb) +
          schools (amenities nb) + hospitals (amenities nb) + shoppingCenters (amenities nb) +
          entertainment (amenities nb) \<ge> minAmenities f)
       (filter
          (\<lambda>nb. matchesSearch toLowerCase searchTerm nb \<and> matchesSafety f nb \<and>
             matchesWalkability f nb \<and> matchesCrimeRate f nb)
          neighborhoods) \<and>
   ((\<forall>nb \<in> set neighborhoods.
       matchesSearch toLowerCase searchTerm nb \<and> matchesSafety f nb \<and>
       matchesWalkability f nb \<and> matchesCrimeRate f nb) \<longrightarrow>
      filteredNeighborhoods toLowerCase neighborhoods searchTerm f =
        filter
          (\<lambda>nb. restaurants (amenities nb) + cafes (amenities nb) + bars (amenities nb) +
             groceryStores (amenities nb) + parks (amenities nb) + gyms (amenities nb) +
             schools (amenities nb) + hospitals (amenities nb) +
             shoppingCenters (amenities nb) + entertainment (amenities nb) \<ge> minAmenities f)
          neighborhoods) \<and>
   ((\<forall>nb \<in> set [n1, n2, n3].
       matchesSearch toLowerCase searchTerm nb \<and> matchesSafety f nb \<and>
       matchesWalkability f nb \<and> matchesCrimeRate f nb) \<and>
    restaurants (amenities n1) + cafes (amenities n1) + bars (amenities n1) +
      groceryStores (amenities n1) + parks (amenities n1) + gyms (amenities n1) +
      schools (amenities n1) + hospitals (amenities n1) + shoppingCenters (amenities n1) +
      entertainment (amenities n1) = 10 \<and>
    restaurants (amenities n2) + cafes (amenities n2) + bars (amenities n2) +
      groceryStores (amenities n2) + parks (amenities n2) + gyms (amenities n2) +
      schools (amenities n2) + hospitals (amenities n2) + shoppingCenters (amenities n2) +
      entertainment (amenities n2) = 40 \<and>
    restaurants (amenities n3) + cafes (amenities n3) + bars (amenities n3) +
      groceryStores (amenities n3) + parks (amenities n3) + gyms (amenities n3) +
      schools (amenities n3) + hospitals (amenities n3) + shoppingCenters (amenities n3) +
      entertainment (amenities n3) = 55 \<and>
    minAmenities f = 30 \<longrightarrow>
      filteredNeighborhoods toLowerCase [n1, n2, n3] searchTerm f = [n2, n3])"
proof (intro conjI impI)
  show "filteredNeighborhoods toLowerCase neighborhoods searchTerm f =
     filter
       (\<lambda>nb. restaurants (amenities nb) + cafes (amenities nb) + bars (amenities nb) +
          groceryStores (amenities nb) + parks (amenities nb) + gyms (amenities nb) +
          schools (amenities nb) + hospitals (amenities nb) + shoppingCenters (amenities nb) +
          entertainment (amenities nb) \<ge> minAmenities f)
       (filter
          (\<lambda>nb. matchesSearch toLowerCase searchTerm nb \<and> matchesSafety f nb \<and>
             matchesWalkability f nb \<and> matchesCrimeRate f nb)
          neighborhoods)"
    by (rule filteredNeighborhoods_staged)
next
  assume "\<forall>nb \<in> set neighborhoods.
       matchesSearch toLowerCase searchTerm nb \<and> matchesSafety f nb \<and>
       matchesWalkability f nb \<and> matchesCrimeRate f nb"
  then show "filteredNeighborhoods toLowerCase neighborhoods searchTerm f =
        filter
          (\<lambda>nb. restaurants (amenities nb) + cafes (amenities nb) + bars (amenities nb) +
             groceryStores (amenities nb) + parks (amenities nb) + gyms (amenities nb) +
             schools (amenities nb) + hospitals (amenities nb) +
             shoppingCenters (amenities nb) + entertainment (amenities nb) \<ge> minAmenities f)
          neighborhoods"
    by (rule filteredNeighborhoods_others_pass)
next
  assume a: "(\<forall>nb \<in> set [n1, n2, n3].
       matchesSearch toLowerCase searchTerm nb \<and> matchesSafety f nb \<and>
       matchesWalkability f nb \<and> matchesCrimeRate f nb) \<and>
    restaurants (amenities n1) + cafes (amenities n1) + bars (amenities n1) +
      groceryStores (amenities n1) + parks (amenities n1) + gyms (amenities n1) +
      schools (amenities n1) + hospitals (amenities n1) + shoppingCenters (amenities n1) +
      entertainment (amenities n1) = 10 \<and>
    restaurants (amenities n2) + cafes (amenities n2) + bars (amenities n2) +
      groceryStores (amenities n2) + parks (amenities n2) + gyms (amenities n2) +
      schools (amenities n2) + hospitals (amenities n2) + shoppingCenters (amenities n2) +
      entertainment (amenities n2) = 40 \<and>
    restaurants (amenities n3) + cafes (amenities n3) + bars (amenities n3) +
      groceryStores (amenities n3) + parks (amenities n3) + gyms (amenities n3) +
      schools (amenities n3) + hospitals (amenities n3) + shoppingCenters (amenities n3) +
      entertainment (amenities n3) = 55 \<and>
    minAmenities f = 30"
  then have "\<forall>nb \<in> set [n1, n2, n3].
       matchesSearch toLowerCase searchTerm nb \<and> matchesSafety f nb \<and>
       matchesWalkability f nb \<and> matchesCrimeRate f nb"
    by blast
  then have "filteredNeighborhoods toLowerCase [n1, n2, n3] searchTerm f =
     filter
       (\<lambda>nb. restaurants (amenities nb) + cafes (amenities nb) + bars (amenities nb) +
          groceryStores (amenities nb) + parks (amenities nb) + gyms (amenities nb) +
          schools (amenities nb) + hospitals (amenities nb) + shoppingCenters (amenities nb) +
          entertainment (amenities nb) \<ge> minAmenities f)
       [n1, n2, n3]"
    by (rule filteredNeighborhoods_others_pass)
  then show "filteredNeighborhoods toLowerCase [n1, n2, n3] searchTerm f = [n2, n3]"
    using a by simp
qed

lemma withAmenities_passes:
  "matchesSearch asciiLowerCase ''York'' (withAmenities nm a)"
  "matchesSafety amenityFilters (withAmenities nm a)"
  "matchesWalkability amenityFilters (withAmenities nm a)"
  "matchesCrimeRate amenityFilters (withAmenities nm a)"
  "amenities (withAmenities nm a) = a"
  by (simp_all add: matchesSearch_def matchesSafety_def matchesWalkability_def
      matchesCrimeRate_def withAmenities_def baseNeighborhood_def amenityFilters_def
      asciiLowerCase_def lowerChar_def)

theorem amenity_filter_witness:
  "list_all
     (\<lambda>nb. matchesSearch asciiLowerCase ''York'' nb \<and> matchesSafety amenityFilters nb \<and>
        matchesWalkability amenityFilters nb \<and> matchesCrimeRate amenityFilters nb)
     [withAmenities ''Downtown'' amenities10, withAmenities ''Westside'' amenities40,
      withAmenities ''Hillside'' amenities55] \<and>
   restaurants amenities10 + cafes amenities10 + bars amenities10 + groceryStores amenities10 +
     parks amenities10 + gyms amenities10 + schools amenities10 + hospitals amenities10 +
     shoppingCenters amenities10 + entertainment amenities10 = 10 \<and>
   restaurants amenities40 + cafes amenities40 + bars amenities40 + groceryStores amenities40 +
     parks amenities40 + gyms amenities40 + schools amenities40 + hospitals amenities40 +
     shoppingCenters amenities40 + entertainment amenities40 = 40 \<and>
   restaurants amenities55 + cafes amenities55 + bars amenities55 + groceryStores amenities55 +
     parks amenities55 + gyms amenities55 + schools amenities55 + hospitals amenities55 +
     shoppingCenters amenities55 + entertainment amenities55 = 55 \<and>
   minAmenities amenityFilters = 30 \<and>
   filteredNeighborhoods asciiLowerCase
     [withAmenities ''Downtown'' amenities10, withAmenities ''Westside'' amenities40,
      withAmenities ''Hillside'' amenities55]
     ''York'' amenityFilters =
   [withAmenities ''Westside'' amenities40, withAmenities ''Hillside'' amenities55]"
proof -
  have m: "minAmenities amenityFilters = 30"
    by (simp add: amenityFilters_def)
  have t: "restaurants amenities10 + cafes amenities10 + bars amenities10 +
      groceryStores amenities10 + parks amenities10 + gyms amenities10 + schools amenities10 +
      hospitals amenities10 + shoppingCenters amenities10 + entertainment amenities10 = 10"
    "restaurants amenities40 + cafes amenities40 + bars amenities40 +
      groceryStores amenities40 + parks amenities40 + gyms amenities40 + schools amenities40 +
      hospitals amenities40 + shoppingCenters amenities40 + entertainment amenities40 = 40"
    "restaurants amenities55 + cafes amenities55 + bars amenities55 +
      groceryStores amenities55 + parks amenities55 + gyms amenities55 + schools amenities55 +
      hospitals amenities55 + shoppingCenters amenities55 + entertainment amenities55 = 55"
    by (simp_all add: amenities10_def amenities40_def amenities55_def)
  show ?thesis
    using m t withAmenities_passes
      amenity_filter [of asciiLowerCase
        "[withAmenities ''Downtown'' amenities10, withAmenities ''Westside'' amenities40,
          withAmenities ''Hillside'' amenities55]"
        "''York''" amenityFilters "withAmenities ''Downtown'' amenities10"
        "withAmenities ''Westside'' amenities40" "withAmenities ''Hillside'' amenities55"]
    by simp
qed

lemma amenity_filter_boundary:
  "filteredNeighborhoods asciiLowerCase
     [withAmenities ''Downtown'' amenities10, withAmenities ''Midtown'' amenities30,
      withAmenities ''Westside'' amenities40, withAmenities ''Hillside'' amenities55]
     ''York'' amenityFilters =
   [withAmenities ''Midtown'' amenities30, withAmenities ''Westside'' amenities40,
    withAmenities ''Hillside'' amenities55]"
proof -
  have "filteredNeighborhoods asciiLowerCase
     [withAmenities ''Downtown'' amenities10, withAmenities ''Midtown'' amenities30,
      withAmenities ''Westside'' amenities40, withAmenities ''Hillside'' amenities55]
     ''York'' amenityFilters =
     filter
       (\<lambda>nb. restaurants (amenities nb) + cafes (amenities nb) + bars (amenities nb) +
          groceryStores (amenities nb) + parks (amenities nb) + gyms (amenities nb) +
          schools (amenities nb) + hospitals (amenities nb) + shoppingCenters (amenities nb) +
          entertainment (amenities nb) \<ge> minAmenities amenityFilters)
       [withAmenities ''Downtown'' amenities10, withAmenities ''Midtown'' amenities30,
        withAmenities ''Westside'' amenities40, withAmenities ''Hillside'' amenities55]"
    by (rule filteredNeighborhoods_others_pass) (simp add: withAmenities_passes)
  then show ?thesis
    by (simp add: withAmenities_passes(5) amenityFilters_def amenities10_def amenities30_def
        amenities40_def amenities55_def)
qed

end
